theory Spec2Isabelle
  imports Main "HOL-Library.Word" "HOL-Library.AList" "HOL-Library.Sublist"
begin

section \<open>JavaScript values used by \<^verbatim>\<open>modules/shared/util.js\<close>\<close>

text \<open>
  A JavaScript string is a sequence of 16-bit code units and a \<^verbatim>\<open>Buffer\<close> is a sequence of
  bytes. \<open>str\<close> writes a string literal of the source: every character of the literals
  that occur in \<^verbatim>\<open>util.js\<close> is ASCII, so it is one code unit. An exception of the source
  (a thrown \<^verbatim>\<open>TypeError\<close>, \<^verbatim>\<open>URIError\<close>, or a file-system error of \<^verbatim>\<open>fs.readFileSync\<close>)
  is a value of the type \<open>error\<close>; a function that can throw returns \<open>error + 'a\<close>.
\<close>

type_synonym byte = "8 word"
type_synonym jschar = "16 word"
type_synonym jsstring = "jschar list"

datatype error = TypeError | URIError | ENOENT | EISDIR

definition chr :: "char \<Rightarrow> jschar" where
  "chr c = of_nat (of_char c)"

definition str :: "string \<Rightarrow> jsstring" where
  "str s = map chr s"

text \<open>\<^verbatim>\<open>xs[i]\<close> on an array: \<open>None\<close> is \<^verbatim>\<open>undefined\<close> (an index out of range).\<close>

definition nth_opt :: "'a list \<Rightarrow> nat \<Rightarrow> 'a option" where
  "nth_opt xs i = (if i < length xs then Some (xs ! i) else None)"

text \<open>A string or \<^verbatim>\<open>undefined\<close> inside a template literal or as an argument converted by
  \<^verbatim>\<open>ToString\<close>.\<close>

definition toStr :: "jsstring option \<Rightarrow> jsstring" where
  "toStr v = (case v of None \<Rightarrow> str ''undefined'' | Some s \<Rightarrow> s)"

subsection \<open>String.prototype functions\<close>

text \<open>\<^verbatim>\<open>s.indexOf(pat)\<close>: the position of the first occurrence, \<open>None\<close> for \<^verbatim>\<open>-1\<close>.\<close>

fun indexOf :: "jsstring \<Rightarrow> jsstring \<Rightarrow> nat option" where
  "indexOf [] pat = (if pat = [] then Some 0 else None)"
| "indexOf (c # cs) pat =
     (if prefix pat (c # cs) then Some 0 else map_option Suc (indexOf cs pat))"

text \<open>\<^verbatim>\<open>s.substring(from, to)\<close> for \<open>from \<le> to\<close>, and \<^verbatim>\<open>s.substring(from)\<close>.\<close>

definition substring :: "jsstring \<Rightarrow> nat \<Rightarrow> nat \<Rightarrow> jsstring" where
  "substring s from to = take (to - from) (drop from s)"

definition substringFrom :: "jsstring \<Rightarrow> nat \<Rightarrow> jsstring" where
  "substringFrom s from = drop from s"

fun consHead :: "'a \<Rightarrow> 'a list list \<Rightarrow> 'a list list" where
  "consHead c [] = [[c]]"
| "consHead c (p # ps) = (c # p) # ps"

text \<open>\<^verbatim>\<open>s.split(sep)\<close> for a non-empty separator string (the source only splits on
  \<^verbatim>\<open>'\r\n'\<close>, \<^verbatim>\<open>' '\<close>, \<^verbatim>\<open>':'\<close>, \<^verbatim>\<open>'&'\<close>, \<^verbatim>\<open>'='\<close>, \<^verbatim>\<open>','\<close> and \<^verbatim>\<open>'/'\<close>): the pieces between the
  occurrences of the separator, found from left to right; never the empty array.\<close>

function split :: "jsstring \<Rightarrow> jsstring \<Rightarrow> jsstring list" where
  "split [] sep = [[]]"
| "split (c # cs) sep =
     (if sep \<noteq> [] \<and> prefix sep (c # cs)
      then [] # split (drop (length sep) (c # cs)) sep
      else consHead c (split cs sep))"
  by pat_completeness auto
termination
  by (relation "measure (\<lambda>(s, sep). length s)") (auto simp: neq_Nil_conv)

text \<open>The code units that \<^verbatim>\<open>trim()\<close> removes: ECMAScript's WhiteSpace and LineTerminator.\<close>

definition isWhiteSpace :: "jschar \<Rightarrow> bool" where
  "isWhiteSpace c \<longleftrightarrow>
     c \<in> {0x09, 0x0A, 0x0B, 0x0C, 0x0D, 0x20, 0xA0, 0x1680, 0x2028, 0x2029, 0x202F, 0x205F,
          0x3000, 0xFEFF} \<or> (0x2000 \<le> c \<and> c \<le> 0x200A)"

definition trim :: "jsstring \<Rightarrow> jsstring" where
  "trim s = rev (dropWhile isWhiteSpace (rev (dropWhile isWhiteSpace s)))"

text \<open>
  \<^verbatim>\<open>s.replace(pat, repl)\<close> with a string pattern replaces the first occurrence of \<open>pat\<close>
  only, and it does not insert \<open>repl\<close> literally: \<^verbatim>\<open>GetSubstitution\<close> expands the patterns
  \<^verbatim>\<open>$$\<close> (a dollar sign), \<^verbatim>\<open>$&\<close> (the matched text), \<^verbatim>\<open>$`\<close> (the text before the match) and
  \<^verbatim>\<open>$'\<close> (the text after it). A string pattern has no capture groups, so \<^verbatim>\<open>$1\<close> \<dots> \<^verbatim>\<open>$99\<close>
  and \<^verbatim>\<open>$<\<close> stay as they are.
\<close>

fun getSubstitution :: "jsstring \<Rightarrow> jsstring \<Rightarrow> jsstring \<Rightarrow> jsstring \<Rightarrow> jsstring" where
  "getSubstitution matched preceding following [] = []"
| "getSubstitution matched preceding following [c] = [c]"
| "getSubstitution matched preceding following (c # d # r) =
     (if c = chr CHR ''$'' \<and> d = chr CHR ''$'' then
        chr CHR ''$'' # getSubstitution matched preceding following r
      else if c = chr CHR ''$'' \<and> d = chr CHR ''&'' then
        matched @ getSubstitution matched preceding following r
      else if c = chr CHR ''$'' \<and> d = chr CHR 0x60 then
        preceding @ getSubstitution matched preceding following r
      else if c = chr CHR ''$'' \<and> d = chr CHR 0x27 then
        following @ getSubstitution matched preceding following r
      else c # getSubstitution matched preceding following (d # r))"

definition replace :: "jsstring \<Rightarrow> jsstring \<Rightarrow> jsstring \<Rightarrow> jsstring" where
  "replace s pat repl =
     (case indexOf s pat of
        None \<Rightarrow> s
      | Some i \<Rightarrow>
          (let preceding = take i s; following = drop (i + length pat) s
           in preceding @ getSubstitution pat preceding following repl @ following))"

text \<open>\<^verbatim>\<open>part.replace(/\+/g, '%20')\<close>: every \<^verbatim>\<open>+\<close> becomes \<^verbatim>\<open>%20\<close> (the replacement has no
  \<^verbatim>\<open>$\<close>).\<close>

definition replacePlus :: "jsstring \<Rightarrow> jsstring" where
  "replacePlus part = concat (map (\<lambda>c. if c = chr CHR ''+'' then str ''%20'' else [c]) part)"

subsection \<open>Buffers and strings: UTF-8 and UTF-16\<close>

text \<open>
  \<^verbatim>\<open>buf.toString()\<close> decodes the bytes as UTF-8 into code points, the way the Encoding
  Standard's decoder does: every maximal ill-formed part becomes one replacement
  character U+FFFD and the byte that ended it is read again. The state of the decoder is
  the number of continuation bytes still needed, the code point so far, and the range
  allowed for the next byte.
\<close>

function utf8Decode :: "nat \<Rightarrow> nat \<Rightarrow> nat \<Rightarrow> nat \<Rightarrow> byte list \<Rightarrow> nat list" where
  "utf8Decode needed cp lo hi [] = (if needed = 0 then [] else [0xFFFD])"
| "utf8Decode needed cp lo hi (b # bs) =
     (let n = unat b in
      if needed = 0 then
        (if n \<le> 0x7F then n # utf8Decode 0 0 0x80 0xBF bs
         else if 0xC2 \<le> n \<and> n \<le> 0xDF then utf8Decode 1 (n - 0xC0) 0x80 0xBF bs
         else if 0xE0 \<le> n \<and> n \<le> 0xEF then
           utf8Decode 2 (n - 0xE0) (if n = 0xE0 then 0xA0 else 0x80)
             (if n = 0xED then 0x9F else 0xBF) bs
         else if 0xF0 \<le> n \<and> n \<le> 0xF4 then
           utf8Decode 3 (n - 0xF0) (if n = 0xF0 then 0x90 else 0x80)
             (if n = 0xF4 then 0x8F else 0xBF) bs
         else 0xFFFD # utf8Decode 0 0 0x80 0xBF bs)
      else if \<not> (lo \<le> n \<and> n \<le> hi) then 0xFFFD # utf8Decode 0 0 0x80 0xBF (b # bs)
      else if needed = 1 then (cp * 64 + (n - 0x80)) # utf8Decode 0 0 0x80 0xBF bs
      else utf8Decode (needed - 1) (cp * 64 + (n - 0x80)) 0x80 0xBF bs)"
  by pat_completeness auto
termination
  by (relation "measure (\<lambda>(needed, cp, lo, hi, bs). 2 * length bs + (if needed = 0 then 0 else 1))")
     auto

text \<open>A code point as UTF-16: one code unit, or a surrogate pair above U+FFFF.\<close>

definition utf16 :: "nat \<Rightarrow> jsstring" where
  "utf16 cp =
     (if cp < 0x10000 then [of_nat cp]
      else [of_nat (0xD800 + (cp - 0x10000) div 0x400), of_nat (0xDC00 + (cp - 0x10000) mod 0x400)])"

definition toString :: "byte list \<Rightarrow> jsstring" where
  "toString buf = concat (map utf16 (utf8Decode 0 0 0x80 0xBF buf))"

text \<open>The UTF-8 bytes of a code point.\<close>

definition utf8 :: "nat \<Rightarrow> byte list" where
  "utf8 cp =
     (if cp < 0x80 then [of_nat cp]
      else if cp < 0x800 then [of_nat (0xC0 + cp div 0x40), of_nat (0x80 + cp mod 0x40)]
      else if cp < 0x10000 then
        [of_nat (0xE0 + cp div 0x1000), of_nat (0x80 + cp div 0x40 mod 0x40),
         of_nat (0x80 + cp mod 0x40)]
      else
        [of_nat (0xF0 + cp div 0x40000), of_nat (0x80 + cp div 0x1000 mod 0x40),
         of_nat (0x80 + cp div 0x40 mod 0x40), of_nat (0x80 + cp mod 0x40)])"

definition isHighSurrogate :: "jschar \<Rightarrow> bool" where
  "isHighSurrogate c \<longleftrightarrow> 0xD800 \<le> c \<and> c \<le> 0xDBFF"

definition isLowSurrogate :: "jschar \<Rightarrow> bool" where
  "isLowSurrogate c \<longleftrightarrow> 0xDC00 \<le> c \<and> c \<le> 0xDFFF"

text \<open>\<^verbatim>\<open>Buffer.from(s)\<close> encodes the string as UTF-8: a surrogate pair is one code point, a
  surrogate without its partner is encoded as U+FFFD.\<close>

fun Buffer_from :: "jsstring \<Rightarrow> byte list" where
  "Buffer_from [] = []"
| "Buffer_from [c] =
     (if isHighSurrogate c \<or> isLowSurrogate c then utf8 0xFFFD else utf8 (unat c))"
| "Buffer_from (c # d # r) =
     (if isHighSurrogate c \<and> isLowSurrogate d then
        utf8 (0x10000 + (unat c - 0xD800) * 0x400 + (unat d - 0xDC00)) @ Buffer_from r
      else if isHighSurrogate c \<or> isLowSurrogate c then utf8 0xFFFD @ Buffer_from (d # r)
      else utf8 (unat c) @ Buffer_from (d # r))"

subsection \<open>decodeURIComponent\<close>

definition hexVal :: "jschar \<Rightarrow> nat option" where
  "hexVal c =
     (if chr CHR ''0'' \<le> c \<and> c \<le> chr CHR ''9'' then Some (unat c - 0x30)
      else if chr CHR ''A'' \<le> c \<and> c \<le> chr CHR ''F'' then Some (unat c - 0x37)
      else if chr CHR ''a'' \<le> c \<and> c \<le> chr CHR ''f'' then Some (unat c - 0x57)
      else None)"

text \<open>A run of escapes \<^verbatim>\<open>%XX%XX\<close>\<dots> as the bytes it writes; \<open>None\<close> when it is not one.\<close>

fun escapes :: "jsstring \<Rightarrow> nat list option" where
  "escapes [] = Some []"
| "escapes (p # h # l # r) =
     (case (hexVal h, hexVal l, escapes r) of
        (Some a, Some b, Some bs) \<Rightarrow> if p = chr CHR ''%'' then Some ((16 * a + b) # bs) else None
      | _ \<Rightarrow> None)"
| "escapes _ = None"

text \<open>The code point of a well-formed UTF-8 sequence of two to four bytes (no overlong
  form, no surrogate, nothing above U+10FFFF); \<open>None\<close> for any other byte sequence.\<close>

definition isCont :: "nat \<Rightarrow> bool" where
  "isCont b \<longleftrightarrow> 0x80 \<le> b \<and> b \<le> 0xBF"

fun utf8CodePoint :: "nat list \<Rightarrow> nat option" where
  "utf8CodePoint [b0, b1] =
     (if 0xC2 \<le> b0 \<and> b0 \<le> 0xDF \<and> isCont b1 then Some ((b0 - 0xC0) * 0x40 + (b1 - 0x80))
      else None)"
| "utf8CodePoint [b0, b1, b2] =
     (if 0xE0 \<le> b0 \<and> b0 \<le> 0xEF \<and> (if b0 = 0xE0 then 0xA0 else 0x80) \<le> b1
         \<and> b1 \<le> (if b0 = 0xED then 0x9F else 0xBF) \<and> isCont b2
      then Some (((b0 - 0xE0) * 0x40 + (b1 - 0x80)) * 0x40 + (b2 - 0x80))
      else None)"
| "utf8CodePoint [b0, b1, b2, b3] =
     (if 0xF0 \<le> b0 \<and> b0 \<le> 0xF4 \<and> (if b0 = 0xF0 then 0x90 else 0x80) \<le> b1
         \<and> b1 \<le> (if b0 = 0xF4 then 0x8F else 0xBF) \<and> isCont b2 \<and> isCont b3
      then Some ((((b0 - 0xF0) * 0x40 + (b1 - 0x80)) * 0x40 + (b2 - 0x80)) * 0x40 + (b3 - 0x80))
      else None)"
| "utf8CodePoint _ = None"

text \<open>The number of bytes that the first byte of a UTF-8 sequence announces: the number
  of its leading one bits.\<close>

definition leadingOnes :: "nat \<Rightarrow> nat" where
  "leadingOnes b =
     (if b < 0x80 then 0 else if b < 0xC0 then 1 else if b < 0xE0 then 2
      else if b < 0xF0 then 3 else if b < 0xF8 then 4 else 5)"

text \<open>
  \<^verbatim>\<open>decodeURIComponent(s)\<close>: a code unit other than \<^verbatim>\<open>%\<close> is kept; \<^verbatim>\<open>%XX\<close> below \<^verbatim>\<open>0x80\<close> is
  that character; a first byte that announces \<open>n\<close> bytes must be followed by \<open>n - 1\<close>
  further escapes, and the bytes must be well-formed UTF-8. Anything else throws
  \<^verbatim>\<open>URIError\<close>.
\<close>

function decodeURIComponent :: "jsstring \<Rightarrow> error + jsstring" where
  "decodeURIComponent [] = Inr []"
| "decodeURIComponent (c # cs) =
     (if c \<noteq> chr CHR ''%'' then
        (case decodeURIComponent cs of Inl e \<Rightarrow> Inl e | Inr r \<Rightarrow> Inr (c # r))
      else
        (case escapes (c # take 2 cs) of
           Some [b] \<Rightarrow>
             (let n = leadingOnes b; k = 3 * (n - 1) in
              if n = 0 then
                (case decodeURIComponent (drop 2 cs) of
                   Inl e \<Rightarrow> Inl e
                 | Inr r \<Rightarrow> Inr (of_nat b # r))
              else if n = 1 \<or> n > 4 \<or> length (drop 2 cs) < k then Inl URIError
              else
                (case escapes (take k (drop 2 cs)) of
                   None \<Rightarrow> Inl URIError
                 | Some octets \<Rightarrow>
                     (case utf8CodePoint (b # octets) of
                        None \<Rightarrow> Inl URIError
                      | Some v \<Rightarrow>
                          (case decodeURIComponent (drop k (drop 2 cs)) of
                             Inl e \<Rightarrow> Inl e
                           | Inr r \<Rightarrow> Inr (utf16 v @ r)))))
         | _ \<Rightarrow> Inl URIError))"
  by pat_completeness auto
termination
  by (relation "measure length") auto

subsection \<open>Objects used as property bags\<close>

text \<open>
  An object whose properties are set by \<^verbatim>\<open>obj[key] = value\<close> is the list of its own
  properties in the order of their creation. Assigning to an existing key keeps its
  place; assigning to a new key appends it. The key \<^verbatim>\<open>__proto__\<close> is the exception:
  \<^verbatim>\<open>Object.prototype\<close> has a setter for it that ignores a value that is a string or
  \<^verbatim>\<open>undefined\<close>, so the assignment creates no property.
\<close>

type_synonym 'v object = "(jsstring \<times> 'v) list"

definition objSet :: "'v object \<Rightarrow> jsstring \<Rightarrow> 'v \<Rightarrow> 'v object" where
  "objSet obj key v = (if key = str ''__proto__'' then obj else AList.update key v obj)"

text \<open>\<^verbatim>\<open>obj[key]\<close> for a key that \<^verbatim>\<open>Object.prototype\<close> does not define: \<open>None\<close> is
  \<^verbatim>\<open>undefined\<close>.\<close>

definition objGet :: "'v object \<Rightarrow> jsstring \<Rightarrow> 'v option" where
  "objGet obj key = map_of obj key"

text \<open>
  \<^verbatim>\<open>Object.keys(obj)\<close> lists the keys that are array indices (canonical decimal numerals
  below \<open>2^32 - 1\<close>) first, in ascending order, and then the other keys in the order of
  their creation.
\<close>

definition isDigit :: "jschar \<Rightarrow> bool" where
  "isDigit c \<longleftrightarrow> chr CHR ''0'' \<le> c \<and> c \<le> chr CHR ''9''"

definition decimal :: "jsstring \<Rightarrow> nat" where
  "decimal s = foldl (\<lambda>n c. 10 * n + (unat c - 0x30)) 0 s"

definition isArrayIndex :: "jsstring \<Rightarrow> bool" where
  "isArrayIndex s \<longleftrightarrow>
     s \<noteq> [] \<and> list_all isDigit s \<and> (s = str ''0'' \<or> hd s \<noteq> chr CHR ''0'')
     \<and> length s \<le> 10 \<and> decimal s < 4294967295"

definition Object_keys :: "'v object \<Rightarrow> jsstring list" where
  "Object_keys obj =
     sort_key decimal (filter isArrayIndex (map fst obj))
     @ filter (\<lambda>k. \<not> isArrayIndex k) (map fst obj)"

subsection \<open>The collaborators: file system, mime table, clock\<close>

text \<open>
  \<^verbatim>\<open>fs.existsSync\<close> and \<^verbatim>\<open>fs.readFileSync\<close> look at a file system that gives each path a
  file with its bytes, a directory, or nothing. Reading a path that does not exist or a
  directory throws.
\<close>

datatype fsentry = File "byte list" | Dir

type_synonym fsys = "jsstring \<Rightarrow> fsentry option"

definition existsSync :: "fsys \<Rightarrow> jsstring \<Rightarrow> bool" where
  "existsSync files path \<longleftrightarrow> files path \<noteq> None"

definition readFileSync :: "fsys \<Rightarrow> jsstring \<Rightarrow> error + byte list" where
  "readFileSync files path =
     (case files path of
        None \<Rightarrow> Inl ENOENT
      | Some Dir \<Rightarrow> Inl EISDIR
      | Some (File bytes) \<Rightarrow> Inr bytes)"

text \<open>
  \<^verbatim>\<open>mime.lookup(path)\<close> of the package \<^verbatim>\<open>mime-types\<close> returns the entry of its table for
  the lower-cased extension of \<^verbatim>\<open>'x.' + path\<close>, and the boolean \<^verbatim>\<open>false\<close> when the path is
  empty, has no extension, or the table has no entry. The table (extension to type) is
  the package's data and a parameter here; its keys are lower-case ASCII. \<open>extname\<close> is
  \<^verbatim>\<open>path.extname\<close>: the last component of the path without trailing slashes, from its
  last dot on; empty when there is no dot, when nothing stands before the last dot, and
  for the component \<^verbatim>\<open>..\<close>.
\<close>

datatype mimeval = MFalse | MType jsstring

definition extname :: "jsstring \<Rightarrow> jsstring" where
  "extname path =
     (let stripped = rev (dropWhile (\<lambda>c. c = chr CHR ''/'') (rev path));
          base = rev (takeWhile (\<lambda>c. c \<noteq> chr CHR ''/'') (rev stripped));
          ext = chr CHR ''.'' # rev (takeWhile (\<lambda>c. c \<noteq> chr CHR ''.'') (rev base));
          pre = rev (drop 1 (dropWhile (\<lambda>c. c \<noteq> chr CHR ''.'') (rev base)))
      in if pre = [] \<or> base = str ''..'' \<or> chr CHR ''.'' \<notin> set base then [] else ext)"

text \<open>\<^verbatim>\<open>toLowerCase()\<close> on the ASCII letters, and on the Kelvin sign U+212A, the only other
  character whose lower case is ASCII; a table with ASCII keys cannot tell the
  difference for the rest.\<close>

definition toLowerCase :: "jsstring \<Rightarrow> jsstring" where
  "toLowerCase s =
     map (\<lambda>c. if chr CHR ''A'' \<le> c \<and> c \<le> chr CHR ''Z'' then c + 0x20
              else if c = 0x212A then chr CHR ''k'' else c) s"

definition mime_lookup :: "(jsstring \<rightharpoonup> jsstring) \<Rightarrow> jsstring \<Rightarrow> mimeval" where
  "mime_lookup table path =
     (if path = [] then MFalse
      else
        (let extension = drop 1 (toLowerCase (extname (str ''x.'' @ path)))
         in if extension = [] then MFalse
            else (case table extension of
                    None \<Rightarrow> MFalse
                  | Some t \<Rightarrow> if t = [] then MFalse else MType t)))"

text \<open>
  What the module reads from outside: the served root \<^verbatim>\<open>wwwPath\<close>, the text that
  \<^verbatim>\<open>moment().format('ddd, MMMM Do YYYY HH:mm:ss Z')\<close> gives at the time of the call, the
  table of \<^verbatim>\<open>mime-types\<close>, and the file system.
\<close>

record env =
  wwwPath :: jsstring
  date :: jsstring
  mimeTypes :: "jsstring \<rightharpoonup> jsstring"
  files :: fsys

section \<open>The functions of \<^verbatim>\<open>util.js\<close>\<close>

subsection \<open>Requests and responses\<close>

text \<open>
  The request object. \<open>params\<close> is what \<^verbatim>\<open>queryString.parse\<close> (package \<^verbatim>\<open>query-string\<close>, a
  parameter of \<open>parseRequest\<close>) makes of the query, \<open>None\<close> for the initial \<^verbatim>\<open>{}\<close>; \<open>body\<close> is
  \<open>None\<close> for the initial \<^verbatim>\<open>null\<close>.
\<close>

record 'p request =
  headers :: "jsstring object"
  req_method :: jsstring
  resource :: jsstring
  params :: "'p option"
  body :: "jsstring option"

text \<open>
  The headers of a response are always the object literal with the four keys
  \<^verbatim>\<open>Date\<close>, \<^verbatim>\<open>Server\<close>, \<^verbatim>\<open>Content-Length\<close> (a number) and \<^verbatim>\<open>Content-Type\<close> (what the caller
  passes: a string, or the \<^verbatim>\<open>false\<close> of \<^verbatim>\<open>mime.lookup\<close>). The body of a response is a Buffer
  or \<^verbatim>\<open>null\<close>.
\<close>

record rheaders =
  Date :: jsstring
  Server :: jsstring
  Content_Length :: nat
  Content_Type :: mimeval

record response =
  statusCode :: jsstring
  rheaders :: rheaders
  rbody :: "byte list option"

subsection \<open>parseRequest\<close>

definition CRLF :: jsstring where
  "CRLF = [0x0D, 0x0A]"

text \<open>The header branch of the loop body: what the callback of \<^verbatim>\<open>lines.forEach\<close> does to
  one line while \<^verbatim>\<open>isBody\<close> is false.\<close>

definition headerLine :: "'p request \<Rightarrow> jsstring \<Rightarrow> 'p request" where
  "headerLine request line =
     (let lineParts = split line (str '':'') in
      if length lineParts > 1 then
        (let headerName = lineParts ! 0;
             headerValue = lineParts ! 1;
             headerValue = (if nth_opt headerValue 0 = Some (chr CHR '' '')
                            then substringFrom headerValue 1 else headerValue);
             headerValue = foldl (\<lambda>v part. v @ str '':'' @ part) headerValue (drop 2 lineParts)
         in request\<lparr>headers := objSet (headers request) headerName headerValue\<rparr>)
      else request)"

text \<open>The whole callback, on the pair of \<^verbatim>\<open>isBody\<close> and the request built so far.\<close>

definition forEachLine :: "bool \<times> 'p request \<Rightarrow> jsstring \<Rightarrow> bool \<times> 'p request" where
  "forEachLine st line =
     (let isBody = fst st; request = snd st;
          request = (if \<not> isBody then headerLine request line else request\<lparr>body := Some line\<rparr>)
      in (if line = [] then True else isBody, request))"

text \<open>\<^verbatim>\<open>firstLineParts[1].indexOf\<close> throws a \<^verbatim>\<open>TypeError\<close> when the first line has no space.\<close>

definition parseRequest :: "(jsstring \<Rightarrow> 'p) \<Rightarrow> jsstring \<Rightarrow> error + 'p request" where
  "parseRequest queryString_parse requestText =
     (let lines = split requestText CRLF in
      case nth_opt lines 0 of
        None \<Rightarrow> Inl TypeError
      | Some firstLine \<Rightarrow>
          (let firstLineParts = split firstLine (str '' '') in
           case nth_opt firstLineParts 1 of
             None \<Rightarrow> Inl TypeError
           | Some target \<Rightarrow>
               (let request =
                      \<lparr>headers = [], req_method = firstLineParts ! 0,
                       resource = (case indexOf target (str ''?'') of
                                     Some i \<Rightarrow> substring target 0 i
                                   | None \<Rightarrow> target),
                       params = (case indexOf target (str ''?'') of
                                   Some i \<Rightarrow> Some (queryString_parse (substringFrom target i))
                                 | None \<Rightarrow> None),
                       body = None\<rparr>
                in Inr (snd (foldl forEachLine (False, request) lines)))))"

subsection \<open>Response builders\<close>

definition createResponseObject :: "jsstring \<Rightarrow> rheaders \<Rightarrow> byte list option \<Rightarrow> response" where
  "createResponseObject status hdrs bdy = \<lparr>statusCode = status, rheaders = hdrs, rbody = bdy\<rparr>"

text \<open>\<^verbatim>\<open>body ? body.length : 0\<close>: a Buffer is an object, so it is truthy also when it is
  empty, and its \<^verbatim>\<open>length\<close> is its number of bytes.\<close>

definition contentLength :: "byte list option \<Rightarrow> nat" where
  "contentLength bdy = (case bdy of None \<Rightarrow> 0 | Some b \<Rightarrow> length b)"

definition create200Response :: "env \<Rightarrow> byte list option \<Rightarrow> mimeval \<Rightarrow> response" where
  "create200Response e bdy contentType =
     createResponseObject (str ''200 OK'')
       \<lparr>Date = date e, Server = str ''MiServidor/1.0'', Content_Length = contentLength bdy,
        Content_Type = contentType\<rparr>
       bdy"

definition create404Response :: "env \<Rightarrow> error + response" where
  "create404Response e =
     (case readFileSync (files e) (wwwPath e @ str ''/404.html'') of
        Inl err \<Rightarrow> Inl err
      | Inr bdy \<Rightarrow>
          Inr (createResponseObject (str ''404 NOT FOUND'')
                 \<lparr>Date = date e, Server = str ''MiServidor/1.0'',
                  Content_Length = contentLength (Some bdy),
                  Content_Type = MType (str ''text/html'')\<rparr>
                 (Some bdy)))"

definition create406Response :: "env \<Rightarrow> error + response" where
  "create406Response e =
     (case readFileSync (files e) (wwwPath e @ str ''/406.html'') of
        Inl err \<Rightarrow> Inl err
      | Inr bdy \<Rightarrow>
          Inr (createResponseObject (str ''406 NOT ACCEPTABLE'')
                 \<lparr>Date = date e, Server = str ''MiServidor/1.0'',
                  Content_Length = contentLength (Some bdy),
                  Content_Type = MType (str ''text/html'')\<rparr>
                 (Some bdy)))"

definition create501Response :: "env \<Rightarrow> error + response" where
  "create501Response e =
     (case readFileSync (files e) (wwwPath e @ str ''/501.html'') of
        Inl err \<Rightarrow> Inl err
      | Inr bdy \<Rightarrow>
          Inr (createResponseObject (str ''501 NOT IMPLEMENTED'')
                 \<lparr>Date = date e, Server = str ''MiServidor/1.0'',
                  Content_Length = contentLength (Some bdy),
                  Content_Type = MType (str ''text/html'')\<rparr>
                 (Some bdy)))"

subsection \<open>Mime types\<close>

definition getReqResourceName :: "'p request \<Rightarrow> jsstring" where
  "getReqResourceName req =
     (let resourceName = substringFrom (resource req) 1
      in if resourceName = [] then str ''index.html'' else resourceName)"

definition getMimeTypeParts :: "jsstring \<Rightarrow> jsstring list" where
  "getMimeTypeParts mimeType =
     (let parsedType = trim mimeType;
          parsedType = (case indexOf parsedType (str '';'') of
                          Some i \<Rightarrow> substring parsedType 0 i
                        | None \<Rightarrow> parsedType)
      in split parsedType (str ''/''))"

text \<open>The argument is \<^verbatim>\<open>req.headers['Accept']\<close>, which is \<^verbatim>\<open>undefined\<close> when the request has
  no such header; \<^verbatim>\<open>undefined.split\<close> throws a \<^verbatim>\<open>TypeError\<close>.\<close>

definition parseMimeTypeList :: "jsstring option \<Rightarrow> error + jsstring list" where
  "parseMimeTypeList mimeTypesAsString =
     (case mimeTypesAsString of
        None \<Rightarrow> Inl TypeError
      | Some s \<Rightarrow>
          Inr (map (\<lambda>type. let typeParts = getMimeTypeParts type
                           in toStr (nth_opt typeParts 0) @ str ''/'' @ toStr (nth_opt typeParts 1))
                 (split s (str '',''))))"

text \<open>\<^verbatim>\<open>array.indexOf(v)\<close> on an array of strings, for a \<open>v\<close> that is a string or \<^verbatim>\<open>false\<close>
  (strict equality: \<^verbatim>\<open>false\<close> equals no string).\<close>

fun arrayIndexOf :: "jsstring list \<Rightarrow> mimeval \<Rightarrow> nat option" where
  "arrayIndexOf [] v = None"
| "arrayIndexOf (x # xs) v =
     (if MType x = v then Some 0 else map_option Suc (arrayIndexOf xs v))"

definition mimeTypeIsAccepted :: "mimeval \<Rightarrow> jsstring list \<Rightarrow> bool" where
  "mimeTypeIsAccepted resourceMimeType acceptedMimeTypes =
     (if arrayIndexOf acceptedMimeTypes resourceMimeType = None
         \<and> arrayIndexOf acceptedMimeTypes (MType (str ''*/*'')) = None
      then False else True)"

text \<open>\<^verbatim>\<open>mimeType.trim()\<close> throws a \<^verbatim>\<open>TypeError\<close> when the argument is \<^verbatim>\<open>false\<close>.\<close>

definition mimeTypeIsHtml :: "mimeval \<Rightarrow> error + bool" where
  "mimeTypeIsHtml mimeType =
     (case mimeType of
        MFalse \<Rightarrow> Inl TypeError
      | MType t \<Rightarrow>
          (let mimeParts = getMimeTypeParts t
           in Inr (nth_opt mimeParts 0 = Some (str ''text'')
                   \<and> nth_opt mimeParts 1 = Some (str ''html''))))"

subsection \<open>Form bodies and templates\<close>

text \<open>\<^verbatim>\<open>xs.map(f)\<close> and a \<^verbatim>\<open>forEach\<close> that updates an accumulator, for an \<open>f\<close> that can
  throw: the first exception ends the loop.\<close>

fun mapE :: "('a \<Rightarrow> error + 'b) \<Rightarrow> 'a list \<Rightarrow> error + 'b list" where
  "mapE f [] = Inr []"
| "mapE f (x # xs) =
     (case f x of
        Inl e \<Rightarrow> Inl e
      | Inr y \<Rightarrow> (case mapE f xs of Inl e \<Rightarrow> Inl e | Inr ys \<Rightarrow> Inr (y # ys)))"

fun foldE :: "('s \<Rightarrow> 'a \<Rightarrow> error + 's) \<Rightarrow> 's \<Rightarrow> 'a list \<Rightarrow> error + 's" where
  "foldE f s [] = Inr s"
| "foldE f s (x # xs) = (case f s x of Inl e \<Rightarrow> Inl e | Inr s' \<Rightarrow> foldE f s' xs)"

text \<open>The callback of \<^verbatim>\<open>body.split('&').forEach\<close>. A value is a string, or \<open>None\<close> for the
  \<^verbatim>\<open>undefined\<close> that \<^verbatim>\<open>parts[1]\<close> is when the pair has no \<^verbatim>\<open>=\<close>.\<close>

definition formProp :: "jsstring option object \<Rightarrow> jsstring \<Rightarrow> error + jsstring option object" where
  "formProp properties prop =
     (case mapE (\<lambda>part. decodeURIComponent (replacePlus part)) (split prop (str ''='')) of
        Inl e \<Rightarrow> Inl e
      | Inr parts \<Rightarrow> Inr (objSet properties (toStr (nth_opt parts 0)) (nth_opt parts 1)))"

definition parseFormUrlEncoded :: "jsstring \<Rightarrow> error + jsstring option object" where
  "parseFormUrlEncoded bdy = foldE formProp [] (split bdy (str ''&''))"

text \<open>The callback of \<^verbatim>\<open>Object.keys(params).forEach\<close> in \<^verbatim>\<open>runCGI\<close>, on the template so far.\<close>

definition placeholder :: "jsstring \<Rightarrow> jsstring" where
  "placeholder key = str ''%%'' @ key @ str ''%%''"

definition substitute :: "jsstring option object \<Rightarrow> jsstring \<Rightarrow> jsstring \<Rightarrow> jsstring" where
  "substitute parms template key =
     (if indexOf template (placeholder key) \<noteq> None
      then replace template (placeholder key)
             (toStr (case objGet parms key of None \<Rightarrow> None | Some v \<Rightarrow> v))
      else template)"

definition runCGI :: "byte list \<Rightarrow> jsstring option object \<Rightarrow> byte list" where
  "runCGI data parms =
     Buffer_from (foldl (substitute parms) (toString data) (Object_keys parms))"

subsection \<open>The resolver\<close>

text \<open>
  In the three functions the constants are computed first, in the order of the source, so
  \<^verbatim>\<open>parseMimeTypeList\<close> throws before the resource is looked at. In
  \<^verbatim>\<open>req.body && this.mimeTypeIsHtml(\<dots>)\<close> the body is falsy when it is \<^verbatim>\<open>null\<close> or the empty
  string, and then \<^verbatim>\<open>mimeTypeIsHtml\<close> is not called.
\<close>

definition processGet :: "env \<Rightarrow> 'p request \<Rightarrow> error + response" where
  "processGet e req =
     (let resourceName = getReqResourceName req;
          resourcePath = wwwPath e @ str ''/'' @ resourceName;
          resourceExists = existsSync (files e) resourcePath;
          resourceMimeType = mime_lookup (mimeTypes e) resourceName
      in case parseMimeTypeList (objGet (headers req) (str ''Accept'')) of
           Inl err \<Rightarrow> Inl err
         | Inr acceptedMimeTypes \<Rightarrow>
             if \<not> resourceExists then create404Response e
             else if \<not> mimeTypeIsAccepted resourceMimeType acceptedMimeTypes
             then create406Response e
             else
               (case readFileSync (files e) resourcePath of
                  Inl err \<Rightarrow> Inl err
                | Inr data \<Rightarrow>
                    (case body req of
                       None \<Rightarrow> Inr (create200Response e (Some data) resourceMimeType)
                     | Some b \<Rightarrow>
                         if b = [] then Inr (create200Response e (Some data) resourceMimeType)
                         else
                           (case mimeTypeIsHtml (mime_lookup (mimeTypes e) resourceName) of
                              Inl err \<Rightarrow> Inl err
                            | Inr isHtml \<Rightarrow>
                                if \<not> isHtml
                                then Inr (create200Response e (Some data) resourceMimeType)
                                else
                                  (case parseFormUrlEncoded b of
                                     Inl err \<Rightarrow> Inl err
                                   | Inr parms \<Rightarrow>
                                       Inr (create200Response e (Some (runCGI data parms))
                                              resourceMimeType))))))"

definition processHead :: "env \<Rightarrow> 'p request \<Rightarrow> error + response" where
  "processHead e req =
     (let resourceName = getReqResourceName req;
          resourcePath = wwwPath e @ str ''/'' @ resourceName;
          resourceExists = existsSync (files e) resourcePath;
          resourceMimeType = mime_lookup (mimeTypes e) resourceName
      in case parseMimeTypeList (objGet (headers req) (str ''Accept'')) of
           Inl err \<Rightarrow> Inl err
         | Inr acceptedMimeTypes \<Rightarrow>
             if \<not> resourceExists then create404Response e
             else if \<not> mimeTypeIsAccepted resourceMimeType acceptedMimeTypes
             then create406Response e
             else Inr (create200Response e None resourceMimeType))"

definition processPost :: "env \<Rightarrow> 'p request \<Rightarrow> error + response" where
  "processPost e req =
     (let resourceName = getReqResourceName req;
          resourcePath = wwwPath e @ str ''/'' @ resourceName;
          resourceExists = existsSync (files e) resourcePath;
          resourceMimeType = mime_lookup (mimeTypes e) resourceName
      in case parseMimeTypeList (objGet (headers req) (str ''Accept'')) of
           Inl err \<Rightarrow> Inl err
         | Inr acceptedMimeTypes \<Rightarrow>
             if \<not> resourceExists then create404Response e
             else if \<not> mimeTypeIsAccepted resourceMimeType acceptedMimeTypes
             then create406Response e
             else
               (case readFileSync (files e) resourcePath of
                  Inl err \<Rightarrow> Inl err
                | Inr data \<Rightarrow>
                    (case body req of
                       None \<Rightarrow> Inr (create200Response e (Some data) resourceMimeType)
                     | Some b \<Rightarrow>
                         if b = [] then Inr (create200Response e (Some data) resourceMimeType)
                         else
                           (case mimeTypeIsHtml (mime_lookup (mimeTypes e) resourceName) of
                              Inl err \<Rightarrow> Inl err
                            | Inr isHtml \<Rightarrow>
                                if \<not> isHtml
                                then Inr (create200Response e (Some data) resourceMimeType)
                                else
                                  (case parseFormUrlEncoded b of
                                     Inl err \<Rightarrow> Inl err
                                   | Inr parms \<Rightarrow>
                                       Inr (create200Response e (Some (runCGI data parms))
                                              resourceMimeType))))))"

definition createResponse :: "env \<Rightarrow> 'p request \<Rightarrow> error + response" where
  "createResponse e req =
     (if req_method req = str ''GET'' then processGet e req
      else if req_method req = str ''HEAD'' then processHead e req
      else if req_method req = str ''POST'' then processPost e req
      else create501Response e)"

section \<open>The words of the specification\<close>

text \<open>
  The header rule as the specification words it, to be compared with the loop of
  \<open>parseRequest\<close>: a line is a header when it contains a colon; its name is the text
  before the first colon and its value is all the text after that colon, less one leading
  space. The lines looked at are those before the first empty line.
\<close>

definition trimOneSpace :: "jsstring \<Rightarrow> jsstring" where
  "trimOneSpace v = (case v of [] \<Rightarrow> [] | c # r \<Rightarrow> if c = chr CHR '' '' then r else c # r)"

definition spec_header :: "jsstring object \<Rightarrow> jsstring \<Rightarrow> jsstring object" where
  "spec_header hs line =
     (if chr CHR '':'' \<in> set line
      then objSet hs (takeWhile (\<lambda>c. c \<noteq> chr CHR '':'') line)
             (trimOneSpace (drop 1 (dropWhile (\<lambda>c. c \<noteq> chr CHR '':'') line)))
      else hs)"

definition spec_headers :: "jsstring list \<Rightarrow> jsstring object" where
  "spec_headers lines = foldl spec_header [] (takeWhile (\<lambda>line. line \<noteq> []) lines)"

text \<open>
  Well-formed UTF-8 is the encoding of Unicode scalar values: the code points that are
  not surrogates.
\<close>

definition isScalarValue :: "nat \<Rightarrow> bool" where
  "isScalarValue cp \<longleftrightarrow> cp < 0xD800 \<or> (0xE000 \<le> cp \<and> cp < 0x110000)"

section \<open>A served root for the examples\<close>

definition ascii :: "string \<Rightarrow> byte list" where
  "ascii s = map (\<lambda>c. of_nat (of_char c)) s"

definition exampleTable :: "jsstring \<rightharpoonup> jsstring" where
  "exampleTable =
     [str ''html'' \<mapsto> str ''text/html'', str ''gif'' \<mapsto> str ''image/gif'',
      str ''bin'' \<mapsto> str ''application/octet-stream'']"

definition exampleFiles :: fsys where
  "exampleFiles =
     [str ''/www/index.html'' \<mapsto> File (ascii ''<h1>%%mensaje%%</h1>''),
      str ''/www/datos.desconocido'' \<mapsto> File (ascii ''abc''),
      str ''/www/404.html'' \<mapsto> File (ascii ''no encontrado''),
      str ''/www/406.html'' \<mapsto> File (ascii ''no aceptable''),
      str ''/www/501.html'' \<mapsto> File (ascii ''no implementado'')]"

definition exampleEnv :: env where
  "exampleEnv =
     \<lparr>wwwPath = str ''/www'', date = str ''Mon, November 2nd 2026 10:00:00 +00:00'',
      mimeTypes = exampleTable, files = exampleFiles\<rparr>"

definition exampleRequest :: "jsstring \<Rightarrow> jsstring \<Rightarrow> jsstring object \<Rightarrow> jsstring option \<Rightarrow> unit request"
  where
  "exampleRequest m r hs b = \<lparr>headers = hs, req_method = m, resource = r, params = None, body = b\<rparr>"

section \<open>Evaluation\<close>

text \<open>The definitions that a concrete input unfolds.\<close>

lemmas example_defs = exampleEnv_def exampleFiles_def exampleTable_def exampleRequest_def ascii_def

lemmas js_defs = str_def chr_def nth_opt_def toStr_def substring_def substringFrom_def
  trim_def isWhiteSpace_def objGet_def objSet_def Let_def

lemmas resolver_defs = createResponse_def processGet_def processHead_def processPost_def
  create200Response_def create404Response_def create406Response_def create501Response_def
  createResponseObject_def contentLength_def readFileSync_def existsSync_def
  getReqResourceName_def parseMimeTypeList_def getMimeTypeParts_def mimeTypeIsAccepted_def
  mimeTypeIsHtml_def mime_lookup_def extname_def toLowerCase_def

lemmas cgi_defs = runCGI_def substitute_def placeholder_def replace_def toString_def utf16_def
  utf8_def Object_keys_def isArrayIndex_def isDigit_def decimal_def isHighSurrogate_def
  isLowSurrogate_def

lemmas form_defs = parseFormUrlEncoded_def formProp_def replacePlus_def hexVal_def
  leadingOnes_def isCont_def

lemmas parse_defs = parseRequest_def forEachLine_def headerLine_def CRLF_def spec_headers_def
  spec_header_def trimOneSpace_def

section \<open>The request parser: header lines\<close>

subsection \<open>Splitting on one character and joining again\<close>

lemma consHead_not_empty: "consHead c ps \<noteq> []"
  by (cases ps) simp_all

lemma split_not_empty: "split s sep \<noteq> []"
  by (induction s sep rule: split.induct) (simp_all add: consHead_not_empty)

lemma split_char_Cons:
  "split (x # xs) [c] = (if x = c then [] # split xs [c] else consHead x (split xs [c]))"
  by simp

lemma join_prefix:
  "foldl (\<lambda>v part. v @ [c] @ part) (a @ v) q = a @ foldl (\<lambda>v part. v @ [c] @ part) v q"
  by (induction q arbitrary: v) simp_all

lemma split_join:
  "split s [c] = p # q \<Longrightarrow> foldl (\<lambda>v part. v @ [c] @ part) p q = s"
proof (induction s arbitrary: p q)
  case Nil
  then show ?case by simp
next
  case (Cons x xs)
  obtain p' q' where pq: "split xs [c] = p' # q'"
    using split_not_empty [of xs "[c]"] by (cases "split xs [c]") auto
  from Cons.IH [OF pq] have ih: "foldl (\<lambda>v part. v @ [c] @ part) p' q' = xs" .
  show ?case
  proof (cases "x = c")
    case True
    with Cons.prems pq have "p = []" "q = p' # q'" by (simp_all add: split_char_Cons)
    then show ?thesis
      using join_prefix [of c "[c]" p' q'] ih True by simp
  next
    case False
    with Cons.prems pq have "p = x # p'" "q = q'" by (simp_all add: split_char_Cons)
    then show ?thesis
      using join_prefix [of c "[x]" p' q'] ih by simp
  qed
qed

lemma split_first:
  "\<exists>q. split s [c] = takeWhile (\<lambda>d. d \<noteq> c) s # q \<and> (q \<noteq> [] \<longleftrightarrow> c \<in> set s)"
proof (induction s)
  case Nil
  then show ?case by simp
next
  case (Cons x xs)
  then obtain q where q: "split xs [c] = takeWhile (\<lambda>d. d \<noteq> c) xs # q" "q \<noteq> [] \<longleftrightarrow> c \<in> set xs"
    by blast
  show ?case
  proof (cases "x = c")
    case True
    then show ?thesis using split_not_empty [of xs "[c]"] by (simp add: split_char_Cons)
  next
    case False
    then show ?thesis using q by (auto simp add: split_char_Cons)
  qed
qed

lemma split_rest:
  assumes "split s [c] = n # p # q"
  shows "foldl (\<lambda>v part. v @ [c] @ part) p q = drop 1 (dropWhile (\<lambda>d. d \<noteq> c) s)"
proof -
  from split_first [of s c] assms have n: "n = takeWhile (\<lambda>d. d \<noteq> c) s" and "c \<in> set s"
    by auto
  from split_join [OF assms] have "foldl (\<lambda>v part. v @ [c] @ part) n (p # q) = s" .
  then have "n @ [c] @ foldl (\<lambda>v part. v @ [c] @ part) p q = s"
    using join_prefix [of c "n @ [c]" p q] by simp
  then have "dropWhile (\<lambda>d. d \<noteq> c) s = c # foldl (\<lambda>v part. v @ [c] @ part) p q"
    using n \<open>c \<in> set s\<close>
    by (metis (mono_tags, lifting) append_Cons append_Nil append_eq_conv_conj same_append_eq takeWhile_dropWhile_id)
  then show ?thesis by simp
qed

lemma join_start:
  "foldl (\<lambda>v part. v @ [c] @ part) [] q = [] \<or> (\<exists>r. foldl (\<lambda>v part. v @ [c] @ part) [] q = c # r)"
proof (cases q)
  case Nil
  then show ?thesis by simp
next
  case (Cons a q')
  then show ?thesis using join_prefix [of c "[c]" a q'] by simp
qed

lemma join_trimOneSpace:
  "foldl (\<lambda>v part. v @ str '':'' @ part)
     (if nth_opt p 0 = Some (chr CHR '' '') then substringFrom p 1 else p) q
   = trimOneSpace (foldl (\<lambda>v part. v @ str '':'' @ part) p q)"
proof -
  let ?f = "\<lambda>v part. v @ [chr CHR '':''] @ part"
  have s: "str '':'' = [chr CHR '':'']" by (simp add: str_def)
  have f: "foldl ?f v q = v @ foldl ?f [] q" for v
    using join_prefix [of "chr CHR '':''" v "[]" q] by simp
  have ne: "chr CHR '':'' \<noteq> chr CHR '' ''" by (simp add: chr_def)
  show ?thesis
  proof (cases p)
    case Nil
    then show ?thesis
      using join_start [of "chr CHR '':''" q] ne
      by (auto simp: s nth_opt_def trimOneSpace_def substringFrom_def)
  next
    case (Cons a p')
    then show ?thesis
      unfolding s using f [of p] f [of p'] f [of "a # p'"]
      by (simp add: nth_opt_def trimOneSpace_def substringFrom_def)
  qed
qed

lemma headerLine_spec:
  "headerLine request line = request\<lparr>headers := spec_header (headers request) line\<rparr>"
proof -
  have s: "str '':'' = [chr CHR '':'']" by (simp add: str_def)
  obtain q where q: "split line [chr CHR '':''] = takeWhile (\<lambda>d. d \<noteq> chr CHR '':'') line # q"
      "q \<noteq> [] \<longleftrightarrow> chr CHR '':'' \<in> set line"
    using split_first [of line "chr CHR '':''"] by blast
  show ?thesis
  proof (cases "chr CHR '':'' \<in> set line")
    case False
    with q show ?thesis by (simp add: headerLine_def spec_header_def s)
  next
    case True
    with q obtain p q' where pq: "q = p # q'" by (cases q) auto
    from split_rest [of line "chr CHR '':''" _ p q'] q pq
    have r: "foldl (\<lambda>v part. v @ [chr CHR '':''] @ part) p q'
               = drop 1 (dropWhile (\<lambda>d. d \<noteq> chr CHR '':'') line)"
      by simp
    show ?thesis
      using True q pq r join_trimOneSpace [of p q']
      by (simp add: headerLine_def spec_header_def s Let_def)
  qed
qed

lemma forEachLine_step:
  "forEachLine (isBody, request) line =
     (isBody \<or> line = [],
      if isBody then request\<lparr>body := Some line\<rparr>
      else request\<lparr>headers := spec_header (headers request) line\<rparr>)"
  by (simp add: forEachLine_def headerLine_spec Let_def)

lemma forEachLine_headers:
  "headers (snd (foldl forEachLine (isBody, request) lines)) =
     (if isBody then headers request
      else foldl spec_header (headers request) (takeWhile (\<lambda>line. line \<noteq> []) lines))"
proof (induction lines arbitrary: isBody request)
  case Nil
  then show ?case by simp
next
  case (Cons line lines)
  have e: "spec_header hs [] = hs" for hs by (simp add: spec_header_def)
  have "foldl forEachLine (isBody, request) (line # lines)
          = foldl forEachLine (forEachLine (isBody, request) line) lines"
    by simp
  then show ?case
    unfolding forEachLine_step by (simp add: Cons.IH e)
qed

lemma parseRequest_headers:
  assumes "parseRequest queryString_parse requestText = Inr req"
  shows "headers req = spec_headers (split requestText CRLF)"
  using assms
  by (auto simp: parseRequest_def spec_headers_def forEachLine_headers Let_def
      split: option.splits)

subsection \<open>Header lines\<close>



subsection \<open>The request line\<close>

lemma parseRequest_first_line:
  assumes "parseRequest queryString_parse requestText = Inr req"
      and "split requestText CRLF = firstLine # rest"
  shows "firstLine \<noteq> []"
  using assms by (auto simp: parseRequest_def nth_opt_def Let_def split: option.splits if_splits)

lemma spec_header_keeps:
  "objGet hs k \<noteq> None \<Longrightarrow> objGet (spec_header hs line) k \<noteq> None"
  by (simp add: spec_header_def objGet_def objSet_def update_conv')

lemma spec_headers_keep:
  "objGet hs k \<noteq> None \<Longrightarrow> objGet (foldl spec_header hs lines) k \<noteq> None"
proof (induction lines arbitrary: hs)
  case Nil
  then show ?case by simp
next
  case (Cons line lines)
  from Cons.prems have "objGet (spec_header hs line) k \<noteq> None"
    by (rule spec_header_keeps)
  from Cons.IH [OF this] show ?case by simp
qed

text \<open>
  Claim C10 says that for every request whose first line contains a colon the headers
  gain an entry under the text before that colon. They do not when that text is
  \<^verbatim>\<open>__proto__\<close>: the assignment \<^verbatim>\<open>request.headers['__proto__'] = \<dots>\<close> creates no property.
\<close>

theorem request_line_header_proto_counterexample:
  "chr CHR '':'' \<in> set (str ''__proto__:a b'')
   \<and> parseRequest (\<lambda>q. ()) (str ''__proto__:a b'' @ CRLF @ CRLF)
       = Inr \<lparr>headers = [], req_method = str ''__proto__:a'', resource = str ''b'', params = None,
              body = Some []\<rparr>"
  by (simp add: parse_defs js_defs)

text \<open>
  Claim C10, amended. \<open>parseRequest\<close> scans the request line with the same loop as the
  header lines: for every request that it parses and whose first line contains a colon,
  the headers have an entry under the text of the request line before its first colon,
  unless that text is \<^verbatim>\<open>__proto__\<close>; when the first line contains no colon it adds
  nothing, and the headers are those of the other lines.
\<close>

theorem request_line_scanned_as_header:
  assumes "parseRequest queryString_parse requestText = Inr req"
      and "split requestText CRLF = firstLine # rest"
  shows "(chr CHR '':'' \<in> set firstLine
          \<and> takeWhile (\<lambda>c. c \<noteq> chr CHR '':'') firstLine \<noteq> str ''__proto__''
          \<longrightarrow> objGet (headers req) (takeWhile (\<lambda>c. c \<noteq> chr CHR '':'') firstLine) \<noteq> None)
       \<and> (chr CHR '':'' \<notin> set firstLine \<longrightarrow> headers req = spec_headers rest)"
proof -
  have ne: "firstLine \<noteq> []" using assms by (rule parseRequest_first_line)
  have h: "headers req = foldl spec_header (spec_header [] firstLine) (takeWhile (\<lambda>line. line \<noteq> []) rest)"
    using parseRequest_headers [OF assms(1)] assms(2) ne by (simp add: spec_headers_def)
  show ?thesis
  proof (intro conjI impI)
    assume "chr CHR '':'' \<in> set firstLine \<and> takeWhile (\<lambda>c. c \<noteq> chr CHR '':'') firstLine \<noteq> str ''__proto__''"
    then have "objGet (spec_header [] firstLine) (takeWhile (\<lambda>c. c \<noteq> chr CHR '':'') firstLine) \<noteq> None"
      by (simp add: spec_header_def objSet_def objGet_def)
    then show "objGet (headers req) (takeWhile (\<lambda>c. c \<noteq> chr CHR '':'') firstLine) \<noteq> None"
      unfolding h by (rule spec_headers_keep)
  next
    assume "chr CHR '':'' \<notin> set firstLine"
    then show "headers req = spec_headers rest"
      unfolding h by (simp add: spec_header_def spec_headers_def)
  qed
qed

text \<open>A request line with an absolute URL, and one without a colon.\<close>

theorem request_line_scanned_as_header_witness:
  "(\<exists>req. parseRequest (\<lambda>q. ()) (str ''GET http://localhost/ HTTP/1.1'' @ CRLF @ str ''Accept: */*'' @ CRLF @ CRLF) = Inr req
         \<and> objGet (headers req) (str ''GET http'') \<noteq> None)
   \<and> (\<exists>req. parseRequest (\<lambda>q. ()) (str ''GET / HTTP/1.1'' @ CRLF @ str ''Accept: */*'' @ CRLF @ CRLF) = Inr req
         \<and> headers req = [(str ''Accept'', str ''*/*'')])"
proof -
  let ?a = "str ''GET http://localhost/ HTTP/1.1'' @ CRLF @ str ''Accept: */*'' @ CRLF @ CRLF"
  let ?b = "str ''GET / HTTP/1.1'' @ CRLF @ str ''Accept: */*'' @ CRLF @ CRLF"
  obtain ra where ra: "parseRequest (\<lambda>q. ()) ?a = Inr ra"
    by (simp add: parseRequest_def CRLF_def js_defs)
  obtain rb where rb: "parseRequest (\<lambda>q. ()) ?b = Inr rb"
    by (simp add: parseRequest_def CRLF_def js_defs)
  have sa: "split ?a CRLF = str ''GET http://localhost/ HTTP/1.1'' # [str ''Accept: */*'', [], []]"
    by (simp add: CRLF_def js_defs)
  have sb: "split ?b CRLF = str ''GET / HTTP/1.1'' # [str ''Accept: */*'', [], []]"
    by (simp add: CRLF_def js_defs)
  have "objGet (headers ra) (str ''GET http'') \<noteq> None"
    using request_line_scanned_as_header [OF ra sa] by (simp add: js_defs)
  moreover have "headers rb = [(str ''Accept'', str ''*/*'')]"
    using request_line_scanned_as_header [OF rb sb] by (simp add: parse_defs js_defs)
  ultimately show ?thesis using ra rb by blast
qed

section \<open>Response builders: the length header\<close>

text \<open>
  Claim C3. In every response that one of the four builders \<open>create200Response\<close>,
  \<open>create404Response\<close>, \<open>create406Response\<close>, \<open>create501Response\<close> produces, the header
  \<^verbatim>\<open>Content-Length\<close> is the number of bytes of the body, and 0 when the body is absent.
\<close>

theorem content_length_is_body_length:
  assumes "r = create200Response e bdy contentType \<or> create404Response e = Inr r
           \<or> create406Response e = Inr r \<or> create501Response e = Inr r"
  shows "Content_Length (rheaders r) = (case rbody r of None \<Rightarrow> 0 | Some b \<Rightarrow> length b)"
  using assms
  by (auto simp: create200Response_def create404Response_def create406Response_def
        create501Response_def createResponseObject_def contentLength_def
      split: sum.splits option.splits)

text \<open>On the example root: a response without body, one with a three-byte body, and the
  404 page.\<close>

theorem content_length_is_body_length_witness:
  "Content_Length (rheaders (create200Response exampleEnv None (MType (str ''text/html'')))) = 0
   \<and> Content_Length (rheaders (create200Response exampleEnv (Some (ascii ''abc'')) MFalse)) = 3
   \<and> (\<exists>r. create404Response exampleEnv = Inr r \<and> rbody r = Some (ascii ''no encontrado'')
          \<and> Content_Length (rheaders r) = 13)"
proof -
  have a: "rbody (create200Response exampleEnv None (MType (str ''text/html''))) = None"
    by (simp add: create200Response_def createResponseObject_def)
  have b: "rbody (create200Response exampleEnv (Some (ascii ''abc'')) MFalse) = Some (ascii ''abc'')"
    by (simp add: create200Response_def createResponseObject_def)
  obtain r where r: "create404Response exampleEnv = Inr r" "rbody r = Some (ascii ''no encontrado'')"
    by (simp add: create404Response_def createResponseObject_def readFileSync_def example_defs js_defs)
  have "Content_Length (rheaders r) = 13"
    using content_length_is_body_length [of r exampleEnv None MFalse] r
    by (simp add: ascii_def)
  moreover have "Content_Length (rheaders (create200Response exampleEnv None (MType (str ''text/html'')))) = 0"
    using content_length_is_body_length [OF disjI1 [OF refl], of exampleEnv None "MType (str ''text/html'')"] a
    by simp
  moreover have "Content_Length (rheaders (create200Response exampleEnv (Some (ascii ''abc'')) MFalse)) = 3"
    using content_length_is_body_length [OF disjI1 [OF refl], of exampleEnv "Some (ascii ''abc'')" MFalse] b
    by (simp add: ascii_def)
  ultimately show ?thesis using r by simp
qed

section \<open>The resolver\<close>

subsection \<open>Unsupported methods\<close>

text \<open>
  Claim C9. For every request whose method is not GET, HEAD or POST, \<open>createResponse\<close>
  returns the 501 response whose body is the contents of \<^verbatim>\<open>501.html\<close> under the served
  root, whatever the requested resource is and whether it exists or not.
\<close>

theorem unsupported_method_501:
  assumes "req_method req \<noteq> str ''GET''" and "req_method req \<noteq> str ''HEAD''"
      and "req_method req \<noteq> str ''POST''"
      and "files e (wwwPath e @ str ''/501.html'') = Some (File doc)"
  shows "createResponse e req =
           Inr \<lparr>statusCode = str ''501 NOT IMPLEMENTED'',
                rheaders = \<lparr>Date = date e, Server = str ''MiServidor/1.0'',
                            Content_Length = length doc,
                            Content_Type = MType (str ''text/html'')\<rparr>,
                rbody = Some doc\<rparr>"
  using assms
  by (simp add: createResponse_def create501Response_def createResponseObject_def
        readFileSync_def contentLength_def)

text \<open>PUT to a resource that does not exist and DELETE of one that does.\<close>

theorem unsupported_method_501_witness:
  "createResponse exampleEnv (exampleRequest (str ''PUT'') (str ''/no-existe.html'') [] None) =
     Inr \<lparr>statusCode = str ''501 NOT IMPLEMENTED'',
          rheaders = \<lparr>Date = date exampleEnv, Server = str ''MiServidor/1.0'',
                      Content_Length = 15, Content_Type = MType (str ''text/html'')\<rparr>,
          rbody = Some (ascii ''no implementado'')\<rparr>
   \<and> createResponse exampleEnv (exampleRequest (str ''DELETE'') (str ''/index.html'') [] None) =
     Inr \<lparr>statusCode = str ''501 NOT IMPLEMENTED'',
          rheaders = \<lparr>Date = date exampleEnv, Server = str ''MiServidor/1.0'',
                      Content_Length = 15, Content_Type = MType (str ''text/html'')\<rparr>,
          rbody = Some (ascii ''no implementado'')\<rparr>"
proof -
  have f: "files exampleEnv (wwwPath exampleEnv @ str ''/501.html'') = Some (File (ascii ''no implementado''))"
    by (simp add: example_defs js_defs)
  have l: "length (ascii ''no implementado'') = 15" by (simp add: ascii_def)
  have "createResponse exampleEnv (exampleRequest (str ''PUT'') (str ''/no-existe.html'') [] None) =
     Inr \<lparr>statusCode = str ''501 NOT IMPLEMENTED'',
          rheaders = \<lparr>Date = date exampleEnv, Server = str ''MiServidor/1.0'',
                      Content_Length = 15, Content_Type = MType (str ''text/html'')\<rparr>,
          rbody = Some (ascii ''no implementado'')\<rparr>"
    using unsupported_method_501 [OF _ _ _ f, of "exampleRequest (str ''PUT'') (str ''/no-existe.html'') [] None"] l
    by (simp add: exampleRequest_def js_defs)
  moreover have "createResponse exampleEnv (exampleRequest (str ''DELETE'') (str ''/index.html'') [] None) =
     Inr \<lparr>statusCode = str ''501 NOT IMPLEMENTED'',
          rheaders = \<lparr>Date = date exampleEnv, Server = str ''MiServidor/1.0'',
                      Content_Length = 15, Content_Type = MType (str ''text/html'')\<rparr>,
          rbody = Some (ascii ''no implementado'')\<rparr>"
    using unsupported_method_501 [OF _ _ _ f, of "exampleRequest (str ''DELETE'') (str ''/index.html'') [] None"] l
    by (simp add: exampleRequest_def js_defs)
  ultimately show ?thesis by simp
qed

subsection \<open>HEAD\<close>



subsection \<open>A request without an Accept header\<close>

text \<open>The three resolver functions parse \<^verbatim>\<open>req.headers['Accept']\<close> before anything else,
  and \<open>parseMimeTypeList\<close> throws on \<^verbatim>\<open>undefined\<close>.\<close>

lemma no_Accept_TypeError:
  assumes "objGet (headers req) (str ''Accept'') = None"
  shows "processGet e req = Inl TypeError" and "processHead e req = Inl TypeError"
    and "processPost e req = Inl TypeError"
  using assms
  by (simp_all add: processGet_def processHead_def processPost_def parseMimeTypeList_def Let_def)

text \<open>
  Claim C1 says that a request without an \<^verbatim>\<open>Accept\<close> header is resolved as if it accepted
  \<^verbatim>\<open>*/*\<close>, so that an existing resource is not refused. The code has no such default:
  the request \<^verbatim>\<open>GET /index.html\<close> with the single header \<^verbatim>\<open>Host\<close>, for a file that
  exists, ends in a \<^verbatim>\<open>TypeError\<close> and no response, and so do HEAD and POST.
\<close>

theorem no_Accept_header_throws:
  "parseRequest (\<lambda>q. ())
     (str ''GET /index.html HTTP/1.1'' @ CRLF @ str ''Host: localhost:9090'' @ CRLF @ CRLF)
     = Inr (exampleRequest (str ''GET'') (str ''/index.html'')
              [(str ''Host'', str ''localhost:9090'')] (Some []))
   \<and> existsSync (files exampleEnv) (str ''/www/index.html'')
   \<and> createResponse exampleEnv
        (exampleRequest (str ''GET'') (str ''/index.html'')
           [(str ''Host'', str ''localhost:9090'')] (Some []))
       = Inl TypeError
   \<and> createResponse exampleEnv
        (exampleRequest (str ''HEAD'') (str ''/index.html'')
           [(str ''Host'', str ''localhost:9090'')] (Some []))
       = Inl TypeError
   \<and> createResponse exampleEnv
        (exampleRequest (str ''POST'') (str ''/index.html'')
           [(str ''Host'', str ''localhost:9090'')] (Some (str ''mensaje=Hola'')))
       = Inl TypeError"
  by (simp add: parseRequest_def forEachLine_def headerLine_def CRLF_def createResponse_def
        no_Accept_TypeError existsSync_def example_defs js_defs)

subsection \<open>Unknown extensions\<close>

text \<open>\<^verbatim>\<open>mime.lookup\<close> answers \<^verbatim>\<open>false\<close> for an extension that its table does not have.\<close>

lemma mime_lookup_unknown_extension:
  assumes "table (drop 1 (toLowerCase (extname (str ''x.'' @ resourceName)))) = None"
  shows "mime_lookup table resourceName = MFalse"
  using assms by (simp add: mime_lookup_def Let_def)

text \<open>
  Claim C5 says that the classifier, as the resolver uses it, gives
  \<^verbatim>\<open>application/octet-stream\<close> for a resource whose extension is not in the table. The
  resolver uses the result of \<^verbatim>\<open>mime.lookup\<close> as it is, and that is \<^verbatim>\<open>false\<close>: the file
  \<^verbatim>\<open>datos.desconocido\<close> is served with \<^verbatim>\<open>false\<close> as its \<^verbatim>\<open>Content-Type\<close>, and a POST with a
  body for it ends in the \<^verbatim>\<open>TypeError\<close> of \<^verbatim>\<open>false.trim()\<close>.
\<close>

theorem unknown_extension_lookup_false:
  "exampleTable (str ''desconocido'') = None
   \<and> mime_lookup exampleTable (str ''datos.desconocido'') = MFalse
   \<and> createResponse exampleEnv
        (exampleRequest (str ''GET'') (str ''/datos.desconocido'') [(str ''Accept'', str ''*/*'')]
           None)
       = Inr \<lparr>statusCode = str ''200 OK'',
              rheaders = \<lparr>Date = date exampleEnv, Server = str ''MiServidor/1.0'',
                          Content_Length = 3, Content_Type = MFalse\<rparr>,
              rbody = Some (ascii ''abc'')\<rparr>
   \<and> createResponse exampleEnv
        (exampleRequest (str ''POST'') (str ''/datos.desconocido'') [(str ''Accept'', str ''*/*'')]
           (Some (str ''a=b'')))
       = Inl TypeError"
  by (simp add: resolver_defs example_defs js_defs)

section \<open>Form bodies\<close>

text \<open>
  Claim C6 says that \<open>parseFormUrlEncoded\<close> splits each pair on the first \<^verbatim>\<open>=\<close>, so that a
  value with further \<^verbatim>\<open>=\<close> characters is kept whole. The code splits the pair on every
  \<^verbatim>\<open>=\<close> and keeps the first two pieces: of \<^verbatim>\<open>a=b=c\<close> the value is \<^verbatim>\<open>b\<close>, not \<^verbatim>\<open>b=c\<close>. (The
  header loop of \<open>parseRequest\<close> has the same split on \<^verbatim>\<open>:\<close> and joins the pieces again.)
\<close>

theorem form_value_cut_at_second_equals:
  "parseFormUrlEncoded (str ''a=b=c'') = Inr [(str ''a'', Some (str ''b''))]"
  by (simp add: form_defs js_defs)

section \<open>The template step\<close>

subsection \<open>One key\<close>

text \<open>
  What the step for one key does when the value has no dollar sign: the first occurrence
  of the placeholder, and only that one, is replaced with the value.
\<close>

lemma getSubstitution_plain:
  "chr CHR ''$'' \<notin> set repl \<Longrightarrow> getSubstitution matched preceding following repl = repl"
  by (induction matched preceding following repl rule: getSubstitution.induct) auto

lemma indexOf_first:
  "indexOf s pat = Some i
   \<Longrightarrow> take i s @ pat @ drop (i + length pat) s = s \<and> (\<forall>j < i. \<not> prefix pat (drop j s))"
proof (induction s arbitrary: i)
  case Nil
  then show ?case by (simp split: if_splits)
next
  case (Cons c cs)
  show ?case
  proof (cases "prefix pat (c # cs)")
    case True
    with Cons.prems have "i = 0" by simp
    with True show ?thesis by (auto simp: prefix_def)
  next
    case False
    with Cons.prems obtain i' where i': "indexOf cs pat = Some i'" "i = Suc i'" by auto
    from Cons.IH [OF i'(1)] have ih: "take i' cs @ pat @ drop (i' + length pat) cs = cs"
      "\<forall>j < i'. \<not> prefix pat (drop j cs)" by simp_all
    have "\<not> prefix pat (drop j (c # cs))" if "j < i" for j
      using that False ih(2) i'(2) by (cases j) simp_all
    with ih(1) i'(2) show ?thesis by simp
  qed
qed

lemma substitute_first_occurrence:
  assumes "indexOf template (placeholder key) = Some i"
      and "objGet parms key = Some (Some v)"
      and "chr CHR ''$'' \<notin> set v"
  shows "substitute parms template key
           = take i template @ v @ drop (i + length (placeholder key)) template"
    and "take i template @ placeholder key @ drop (i + length (placeholder key)) template = template"
    and "\<forall>j < i. \<not> prefix (placeholder key) (drop j template)"
  using assms indexOf_first [OF assms(1)]
  by (simp_all add: substitute_def replace_def toStr_def getSubstitution_plain Let_def)

text \<open>
  Claim C2 says that \<open>runCGI\<close> replaces the first occurrence of \<^verbatim>\<open>%%key%%\<close> with the value
  of the key. \<^verbatim>\<open>String.prototype.replace\<close> expands dollar patterns in the replacement, so
  the value is not always what is inserted: for the form body \<^verbatim>\<open>k=%24%24\<close> the value is
  \<^verbatim>\<open>$$\<close> and the placeholder becomes \<^verbatim>\<open>$\<close>.
\<close>

theorem dollar_value_not_inserted:
  "parseFormUrlEncoded (str ''k=%24%24'') = Inr [(str ''k'', Some (str ''$$''))]
   \<and> runCGI (ascii ''<p>%%k%%</p>'') [(str ''k'', Some (str ''$$''))] = ascii ''<p>$</p>''"
  by (simp add: form_defs cgi_defs ascii_def js_defs)

subsection \<open>Documents that are UTF-8 text\<close>

text \<open>
  Decoding the UTF-8 encoding of scalar values gives these values back, and encoding their
  UTF-16 form gives the same bytes: a well-formed UTF-8 document survives
  \<^verbatim>\<open>Buffer.from(data.toString())\<close>.
\<close>

lemma byte_of_nat: "n < 256 \<Longrightarrow> unat (of_nat n :: byte) = n"
  by (simp add: unat_of_nat)

lemma unit_of_nat: "n < 65536 \<Longrightarrow> unat (of_nat n :: jschar) = n"
  by (simp add: unat_of_nat)

lemma digits2: "(n::nat) = (n div 64) * 64 + n mod 64"
  by simp

lemma digits3: "(n::nat) = ((n div 4096) * 64 + n div 64 mod 64) * 64 + n mod 64"
proof -
  have "n div 64 = (n div 64 div 64) * 64 + n div 64 mod 64" by simp
  moreover have "n div 64 div 64 = n div 4096" by (simp add: div_mult2_eq [symmetric])
  ultimately have "n div 64 = (n div 4096) * 64 + n div 64 mod 64" by simp
  then show ?thesis using digits2 [of n] by simp
qed

lemma digits4:
  "(n::nat) = (((n div 262144) * 64 + n div 4096 mod 64) * 64 + n div 64 mod 64) * 64 + n mod 64"
proof -
  have "n div 64 div 4096 = n div 262144" "n div 64 div 64 = n div 4096"
    by (simp_all add: div_mult2_eq [symmetric])
  then show ?thesis using digits3 [of "n div 64"] digits2 [of n] by simp
qed

lemma decode1:
  assumes "cp < 0x80"
  shows "utf8Decode 0 0 0x80 0xBF (utf8 cp @ bs) = cp # utf8Decode 0 0 0x80 0xBF bs"
  using assms by (simp add: utf8_def byte_of_nat)

lemma decode2:
  assumes "0x80 \<le> cp" "cp < 0x800"
  shows "utf8Decode 0 0 0x80 0xBF (utf8 cp @ bs) = cp # utf8Decode 0 0 0x80 0xBF bs"
proof -
  define a where "a = cp div 0x40"
  define b where "b = cp mod 0x40"
  define A :: byte where "A = of_nat (0xC0 + a)"
  define B :: byte where "B = of_nat (0x80 + b)"
  have a: "2 \<le> a" "a < 32" and b: "b < 64"
    using assms by (auto simp: a_def b_def)
  have cp: "a * 0x40 + b = cp"
    unfolding a_def b_def by simp
  have u: "utf8 cp = [A, B]"
    using assms by (simp add: utf8_def a_def b_def A_def B_def)
  have ua: "unat A = 0xC0 + a" unfolding A_def using a by (intro byte_of_nat) simp
  have ub: "unat B = 0x80 + b" unfolding B_def using b by (intro byte_of_nat) simp
  show ?thesis
    unfolding u using a b cp by (simp add: ua ub Let_def)
qed

lemma decode3:
  assumes "0x800 \<le> cp" "cp < 0x10000" "isScalarValue cp"
  shows "utf8Decode 0 0 0x80 0xBF (utf8 cp @ bs) = cp # utf8Decode 0 0 0x80 0xBF bs"
proof -
  define a where "a = cp div 0x1000"
  define b where "b = cp div 0x40 mod 0x40"
  define c where "c = cp mod 0x40"
  define A :: byte where "A = of_nat (0xE0 + a)"
  define B :: byte where "B = of_nat (0x80 + b)"
  define C :: byte where "C = of_nat (0x80 + c)"
  have cp: "(a * 0x40 + b) * 0x40 + c = cp"
    unfolding a_def b_def c_def using digits3 [of cp] by simp
  have a: "a < 16" and b: "b < 64" and c: "c < 64"
    using assms by (auto simp: a_def b_def c_def)
  have lo: "32 \<le> b" if "a = 0"
  proof -
    from cp that have "b * 64 + c = cp" by simp
    with assms(1) c show ?thesis by arith
  qed
  have hi: "b < 32" if "a = 13"
  proof -
    from cp that have "53248 + b * 64 + c = cp" by simp
    with assms(3) b c show ?thesis unfolding isScalarValue_def by arith
  qed
  have u: "utf8 cp = [A, B, C]"
    using assms by (simp add: utf8_def a_def b_def c_def A_def B_def C_def)
  have ua: "unat A = 0xE0 + a" unfolding A_def using a by (intro byte_of_nat) simp
  have ub: "unat B = 0x80 + b" unfolding B_def using b by (intro byte_of_nat) simp
  have uc: "unat C = 0x80 + c" unfolding C_def using c by (intro byte_of_nat) simp
  show ?thesis
    unfolding u using a b c lo hi cp by (auto simp add: ua ub uc Let_def)
qed

lemma decode4:
  assumes "0x10000 \<le> cp" "cp < 0x110000"
  shows "utf8Decode 0 0 0x80 0xBF (utf8 cp @ bs) = cp # utf8Decode 0 0 0x80 0xBF bs"
proof -
  define a where "a = cp div 0x40000"
  define b where "b = cp div 0x1000 mod 0x40"
  define c where "c = cp div 0x40 mod 0x40"
  define d where "d = cp mod 0x40"
  define A :: byte where "A = of_nat (0xF0 + a)"
  define B :: byte where "B = of_nat (0x80 + b)"
  define C :: byte where "C = of_nat (0x80 + c)"
  define D :: byte where "D = of_nat (0x80 + d)"
  have cp: "((a * 0x40 + b) * 0x40 + c) * 0x40 + d = cp"
    unfolding a_def b_def c_def d_def using digits4 [of cp] by simp
  have a: "a < 5" and b: "b < 64" and c: "c < 64" and d: "d < 64"
    using assms by (auto simp: a_def b_def c_def d_def)
  have lo: "16 \<le> b" if "a = 0"
  proof -
    from cp that have "b * 4096 + c * 64 + d = cp" by simp
    with assms(1) c d show ?thesis by arith
  qed
  have hi: "b < 16" if "a = 4"
  proof -
    from cp that have "1048576 + b * 4096 + c * 64 + d = cp" by simp
    with assms(2) show ?thesis by arith
  qed
  have u: "utf8 cp = [A, B, C, D]"
    using assms by (simp add: utf8_def a_def b_def c_def d_def A_def B_def C_def D_def)
  have ua: "unat A = 0xF0 + a" unfolding A_def using a by (intro byte_of_nat) simp
  have ub: "unat B = 0x80 + b" unfolding B_def using b by (intro byte_of_nat) simp
  have uc: "unat C = 0x80 + c" unfolding C_def using c by (intro byte_of_nat) simp
  have ud: "unat D = 0x80 + d" unfolding D_def using d by (intro byte_of_nat) simp
  show ?thesis
    unfolding u using a b c d lo hi cp by (auto simp add: ua ub uc ud Let_def)
qed

lemma decode_utf8:
  assumes "isScalarValue cp"
  shows "utf8Decode 0 0 0x80 0xBF (utf8 cp @ bs) = cp # utf8Decode 0 0 0x80 0xBF bs"
proof -
  have "cp < 0x80 \<or> (0x80 \<le> cp \<and> cp < 0x800) \<or> (0x800 \<le> cp \<and> cp < 0x10000)
        \<or> (0x10000 \<le> cp \<and> cp < 0x110000)"
    using assms unfolding isScalarValue_def by arith
  then show ?thesis
    using assms decode1 decode2 decode3 decode4 by blast
qed

lemma toString_utf8:
  "\<forall>cp \<in> set cps. isScalarValue cp
   \<Longrightarrow> utf8Decode 0 0 0x80 0xBF (concat (map utf8 cps) @ bs) = cps @ utf8Decode 0 0 0x80 0xBF bs"
  by (induction cps) (simp_all add: decode_utf8)

lemma encode_unit:
  assumes "cp < 0x10000" "isScalarValue cp"
  shows "Buffer_from (of_nat cp # r) = utf8 cp @ Buffer_from r"
proof -
  define c :: jschar where "c = of_nat cp"
  have u: "unat c = cp" unfolding c_def using assms(1) by (intro unit_of_nat) simp
  have s: "\<not> isHighSurrogate c" "\<not> isLowSurrogate c"
    using assms(2) u by (auto simp: isHighSurrogate_def isLowSurrogate_def isScalarValue_def word_le_nat_alt)
  show ?thesis
    unfolding c_def [symmetric] using s u by (cases r) simp_all
qed

lemma encode_pair:
  assumes "0x10000 \<le> cp" "cp < 0x110000"
  shows "Buffer_from (of_nat (0xD800 + (cp - 0x10000) div 0x400)
                      # of_nat (0xDC00 + (cp - 0x10000) mod 0x400) # r) = utf8 cp @ Buffer_from r"
proof -
  define h where "h = (cp - 0x10000) div 0x400"
  define l where "l = (cp - 0x10000) mod 0x400"
  define H :: jschar where "H = of_nat (0xD800 + h)"
  define L :: jschar where "L = of_nat (0xDC00 + l)"
  have h: "h < 1024" and l: "l < 1024" using assms by (auto simp: h_def l_def)
  have cp: "0x10000 + h * 0x400 + l = cp" using assms(1) unfolding h_def l_def by simp
  have uh: "unat H = 0xD800 + h" unfolding H_def using h by (intro unit_of_nat) simp
  have ul: "unat L = 0xDC00 + l" unfolding L_def using l by (intro unit_of_nat) simp
  have s: "isHighSurrogate H" "isLowSurrogate L"
    using h l by (auto simp: isHighSurrogate_def isLowSurrogate_def word_le_nat_alt uh ul)
  show ?thesis
    unfolding h_def [symmetric] l_def [symmetric] H_def [symmetric] L_def [symmetric]
    using s cp by (simp add: uh ul)
qed

lemma Buffer_from_utf16:
  assumes "isScalarValue cp"
  shows "Buffer_from (utf16 cp @ r) = utf8 cp @ Buffer_from r"
proof (cases "cp < 0x10000")
  case True
  then show ?thesis using assms by (simp add: utf16_def encode_unit)
next
  case False
  with assms have "0x10000 \<le> cp" "cp < 0x110000" by (auto simp: isScalarValue_def)
  then show ?thesis using False encode_pair [of cp r] by (simp add: utf16_def)
qed

lemma Buffer_from_text:
  "\<forall>cp \<in> set cps. isScalarValue cp
   \<Longrightarrow> Buffer_from (concat (map utf16 cps)) = concat (map utf8 cps)"
  by (induction cps) (simp_all add: Buffer_from_utf16)

lemma utf8_text_round_trip:
  assumes "\<forall>cp \<in> set cps. isScalarValue cp"
  shows "Buffer_from (toString (concat (map utf8 cps))) = concat (map utf8 cps)"
  using toString_utf8 [OF assms, of "[]"] Buffer_from_text [OF assms] by (simp add: toString_def)

subsection \<open>No matching placeholder\<close>

text \<open>
  Claim C7 says that \<open>runCGI\<close> returns every document unchanged, byte for byte, when no
  key has a placeholder in it. \<open>runCGI\<close> decodes the document as UTF-8 and encodes the
  result again, also when it replaces nothing, and a byte that is not UTF-8 comes back
  as the three bytes of U+FFFD: a Latin-1 document that begins with the byte \<^verbatim>\<open>A1\<close>.
\<close>

theorem runCGI_reencodes_counterexample:
  "indexOf (toString [0xA1, 0x48, 0x6F, 0x6C, 0x61]) (placeholder (str ''k'')) = None
   \<and> Object_keys [(str ''k'', Some (str ''v''))] = [str ''k'']
   \<and> runCGI [0xA1, 0x48, 0x6F, 0x6C, 0x61] [(str ''k'', Some (str ''v''))]
       = [0xEF, 0xBF, 0xBD, 0x48, 0x6F, 0x6C, 0x61]"
  by (simp add: cgi_defs js_defs)

lemma substitute_no_match:
  "indexOf template (placeholder key) = None \<Longrightarrow> substitute parms template key = template"
  by (simp add: substitute_def)

lemma substitute_all_no_match:
  "\<forall>key \<in> set keys. indexOf template (placeholder key) = None
   \<Longrightarrow> foldl (substitute parms) template keys = template"
  by (induction keys) (simp_all add: substitute_no_match)

text \<open>
  Claim C7, amended. For every document that decoding as UTF-8 and encoding again leaves
  as it is (by \<open>utf8_text_round_trip\<close>, every well-formed UTF-8 document), and every
  parameter mapping none of whose keys has a placeholder \<^verbatim>\<open>%%key%%\<close> in the document,
  \<open>runCGI\<close> returns the document unchanged byte for byte.
\<close>

theorem runCGI_no_match_unchanged:
  assumes "Buffer_from (toString data) = data"
      and "\<forall>key \<in> set (Object_keys parms). indexOf (toString data) (placeholder key) = None"
  shows "runCGI data parms = data"
  using assms by (simp add: runCGI_def substitute_all_no_match)

text \<open>A document with a two-byte character and a placeholder for a key that the mapping
  does not have.\<close>

theorem runCGI_no_match_unchanged_witness:
  "runCGI (ascii ''<p>%%a%% caf'' @ [0xC3, 0xA9] @ ascii ''</p>'')
     [(str ''b'', Some (str ''x'')), (str ''7'', None)]
   = ascii ''<p>%%a%% caf'' @ [0xC3, 0xA9] @ ascii ''</p>''"
proof -
  let ?d = "ascii ''<p>%%a%% caf'' @ [0xC3, 0xA9] @ ascii ''</p>''"
  have t: "toString ?d = str ''<p>%%a%% caf'' @ [0xE9] @ str ''</p>''"
    by (simp add: toString_def utf16_def ascii_def js_defs)
  have r: "Buffer_from (toString ?d) = ?d"
    unfolding t by (simp add: utf8_def isHighSurrogate_def isLowSurrogate_def ascii_def js_defs)
  have k: "Object_keys [(str ''b'', Some (str ''x'')), (str ''7'', None)] = [str ''7'', str ''b'']"
    by (simp add: Object_keys_def isArrayIndex_def isDigit_def decimal_def js_defs)
  have n: "\<forall>key \<in> set (Object_keys [(str ''b'', Some (str ''x'')), (str ''7'', None)]).
             indexOf (toString ?d) (placeholder key) = None"
    unfolding t k by (simp add: placeholder_def js_defs)
  show ?thesis using runCGI_no_match_unchanged [OF r n] .
qed

end
